theory Spec2Isabelle
  imports Main
begin

section \<open>The PowerDNS data manager (pdns-data-manager.py)\<close>

text \<open>
  The script reads a list of zones from a YAML document and reconciles it against the
  HTTP API of a PowerDNS server. Everything the script does beyond computing values is
  made explicit here: the HTTP calls it issues (in order), the calls it makes to its
  logger, the lines it prints, and the exceptions that leave a function.

  Modelling decisions:
  \<^item> a zone and a record of the YAML document are dictionaries; they are modelled as
    records holding the keys the script reads, with the value types of the documented
    configuration (strings, lists of strings, an integer ttl, a boolean flag);
  \<^item> the PowerDNS server is a parameter: a function from the requests issued so far
    and the current request to the outcome of the HTTP library call, which is either a
    response with a status code or a network failure (an exception raised by the
    library);
  \<^item> \<open>json.dumps(payload)\<close> is modelled by the payload itself, a JSON value
    whose objects keep the insertion order of the Python dictionary;
  \<^item> \<open>Response.raise_for_status()\<close> of the HTTP library raises exactly for the
    status codes from 400 to 599.
\<close>

subsection \<open>Configuration document\<close>

record rrecord =
  r_name :: string
  r_type :: string
  r_ttl :: int
  r_disabled :: bool
  r_content :: "string list"

record zone =
  z_name :: string
  z_kind :: string
  z_nameservers :: "string list"
  z_masters :: "string list"
  z_records :: "rrecord list"

text \<open>
  The \<open>zones\<close> key of the document: missing, present with a null value, or a list.
\<close>

datatype config = No_zones_key | Zones_null | Zones "zone list"

record args =
  protocol :: string
  host :: string
  port :: string
  key :: string
  operation :: string

subsection \<open>JSON payloads, HTTP, logging\<close>

datatype json =
    JStr string
  | JInt int
  | JBool bool
  | JList "json list"
  | JObj "(string \<times> json) list"

datatype http_method = GET | POST | PATCH | DELETE

record request =
  req_method :: http_method
  req_url :: string
  req_body :: "json option"
  req_headers :: "(string \<times> string) list"

datatype network_failure = ConnectionError | Timeout

datatype response = Status int | Failed network_failure

datatype exn =
    PyException string
  | HTTPError int
  | RequestException network_failure

datatype level = DEBUG | INFO | ERROR

datatype log_arg = Str string | Exc exn

datatype log_entry = Log level string "log_arg list"

text \<open>
  The observable effects of a run: the HTTP requests issued, the logger calls made and
  the lines printed, each in order.
\<close>

record world =
  calls :: "request list"
  logs :: "log_entry list"
  stdout :: "string list"

type_synonym server = "request list \<Rightarrow> request \<Rightarrow> response"

definition world0 :: world where
  "world0 = \<lparr>calls = [], logs = [], stdout = []\<rparr>"

definition logger :: "level \<Rightarrow> string \<Rightarrow> log_arg list \<Rightarrow> world \<Rightarrow> world" where
  "logger lv fmt as w = w\<lparr>logs := logs w @ [Log lv fmt as]\<rparr>"

definition print_line :: "string \<Rightarrow> world \<Rightarrow> world" where
  "print_line msg w = w\<lparr>stdout := stdout w @ [msg]\<rparr>"

text \<open>
  One call of \<open>requests.get/post/patch/delete\<close>: the request is recorded, and the
  library either returns a response (its status code) or raises.
\<close>

definition requests :: "server \<Rightarrow> request \<Rightarrow> world \<Rightarrow> (exn + int) \<times> world" where
  "requests srv rq w =
     (case srv (calls w) rq of
        Failed f \<Rightarrow> Inl (RequestException f)
      | Status c \<Rightarrow> Inr c,
      w\<lparr>calls := calls w @ [rq]\<rparr>)"

definition raise_for_status :: "int \<Rightarrow> exn + unit" where
  "raise_for_status c = (if 400 \<le> c \<and> c < 600 then Inl (HTTPError c) else Inr ())"

subsection \<open>read_zones and validate_data\<close>

definition read_zones :: "config \<Rightarrow> zone list" where
  "read_zones cfg = (case cfg of No_zones_key \<Rightarrow> [] | Zones_null \<Rightarrow> [] | Zones zs \<Rightarrow> zs)"

text \<open>The loop of \<open>validate_data\<close> over the zones; the first violation raises.\<close>

fun validate_zones :: "zone list \<Rightarrow> exn + unit" where
  "validate_zones [] = Inr ()"
| "validate_zones (z # zs) =
     (if z_kind z = ''MASTER'' \<and> length (z_nameservers z) < 1
      then Inl (PyException ''A nameserver is required to create a MASTER zone'')
      else if z_kind z = ''SLAVE'' \<and> length (z_masters z) < 1
      then Inl (PyException ''A master is required to create SLAVE zone'')
      else validate_zones zs)"

definition validate_data :: "config \<Rightarrow> exn + unit" where
  "validate_data data = validate_zones (read_zones data)"

subsection \<open>zone_exists\<close>

text \<open>\<open>requests.get(url, headers=headers)\<close>: a GET request without a body.\<close>

definition get_request :: "string \<Rightarrow> (string \<times> string) list \<Rightarrow> request" where
  "get_request u hdrs = \<lparr>req_method = GET, req_url = u, req_body = None, req_headers = hdrs\<rparr>"

definition zone_exists :: "server \<Rightarrow> string \<Rightarrow> (string \<times> string) list \<Rightarrow> world \<Rightarrow> bool \<times> world" where
  "zone_exists srv u hdrs w =
     (let w1 = logger DEBUG ''Sending GET request to %s'' [Str u] w in
      case requests srv (get_request u hdrs) w1 of
        (Inl error, w2) \<Rightarrow> (False, w2)
      | (Inr status, w2) \<Rightarrow>
          (case raise_for_status status of
             Inl error \<Rightarrow> (False, w2)
           | Inr _ \<Rightarrow> (True, w2)))"

subsection \<open>create_zone\<close>

text \<open>
  The payload that \<open>create_zone\<close> builds before it probes, one dictionary per branch
  of the test on the kind.
\<close>

definition zone_payload :: "zone \<Rightarrow> json" where
  "zone_payload z =
     (if z_kind z = ''MASTER'' \<or> z_kind z = ''NATIVE''
      then JObj [(''name'', JStr (z_name z)),
                 (''kind'', JStr (z_kind z)),
                 (''masters'', JList []),
                 (''nameservers'', JList (map JStr (z_nameservers z)))]
      else JObj [(''name'', JStr (z_name z)),
                 (''kind'', JStr (z_kind z)),
                 (''masters'', JList (map JStr (z_masters z))),
                 (''nameservers'', JList [])])"

text \<open>\<open>requests.post(url, data=json.dumps(payload), headers=headers)\<close>.\<close>

definition post_request :: "string \<Rightarrow> (string \<times> string) list \<Rightarrow> zone \<Rightarrow> request" where
  "post_request u hdrs z =
     \<lparr>req_method = POST, req_url = u, req_body = Some (zone_payload z), req_headers = hdrs\<rparr>"

definition create_zone ::
  "server \<Rightarrow> string \<Rightarrow> (string \<times> string) list \<Rightarrow> zone \<Rightarrow> world \<Rightarrow> (exn + bool) \<times> world" where
  "create_zone srv u hdrs z w =
     (case zone_exists srv (u @ ''/'' @ z_name z) hdrs w of
        (False, w1) \<Rightarrow>
          (let w2 = logger INFO ''Request to create Zone %s'' [Str (z_name z)] w1 in
           case requests srv (post_request u hdrs z) w2 of
             (Inl error, w3) \<Rightarrow> (Inl error, w3)
           | (Inr status, w3) \<Rightarrow>
               if status = 201
               then (Inr True, logger INFO ''Successfully created zone %s'' [Str (z_name z)] w3)
               else (Inr False, logger INFO ''Failed to create zone %s'' [Str (z_name z)] w3))
      | (True, w1) \<Rightarrow> (Inr True, w1))"

subsection \<open>create_records\<close>

text \<open>
  The payload built for one record: the inner loop appends one entry per content value,
  in order.
\<close>

definition record_payload :: "rrecord \<Rightarrow> json" where
  "record_payload r =
     (let recs = map (\<lambda>c. JObj [(''content'', JStr c), (''disabled'', JBool (r_disabled r))])
                     (r_content r)
      in JObj [(''rrsets'',
                JList [JObj [(''name'', JStr (r_name r)),
                             (''type'', JStr (r_type r)),
                             (''ttl'', JInt (r_ttl r)),
                             (''changetype'', JStr ''REPLACE''),
                             (''records'', JList recs)]])])"

definition patch_request :: "string \<Rightarrow> (string \<times> string) list \<Rightarrow> json \<Rightarrow> request" where
  "patch_request u hdrs payload =
     \<lparr>req_method = PATCH, req_url = u, req_body = Some payload, req_headers = hdrs\<rparr>"

text \<open>The body of the loop of \<open>create_records\<close>, for one record.\<close>

definition create_record ::
  "server \<Rightarrow> string \<Rightarrow> (string \<times> string) list \<Rightarrow> zone \<Rightarrow> rrecord \<Rightarrow> world \<Rightarrow> world" where
  "create_record srv u hdrs z r w =
     (let w1 = logger INFO ''Sending request to create record %s'' [Str (r_name r)] w in
      case requests srv (patch_request (u @ ''/'' @ z_name z) hdrs (record_payload r)) w1 of
        (Inl error, w2) \<Rightarrow> logger ERROR ''Error: {error}'' [Exc error] w2
      | (Inr status, w2) \<Rightarrow>
          (case raise_for_status status of
             Inl error \<Rightarrow> logger ERROR ''Error: {error}'' [Exc error] w2
           | Inr _ \<Rightarrow>
               logger INFO ''Successfully created/updated record %s'' [Str (r_name r)] w2))"

fun create_records_loop ::
  "server \<Rightarrow> string \<Rightarrow> (string \<times> string) list \<Rightarrow> zone \<Rightarrow> rrecord list \<Rightarrow> world \<Rightarrow> world" where
  "create_records_loop srv u hdrs z [] w = w"
| "create_records_loop srv u hdrs z (r # rs) w =
     create_records_loop srv u hdrs z rs (create_record srv u hdrs z r w)"

definition create_records ::
  "server \<Rightarrow> string \<Rightarrow> (string \<times> string) list \<Rightarrow> zone \<Rightarrow> world \<Rightarrow> world" where
  "create_records srv u hdrs z w = create_records_loop srv u hdrs z (z_records z) w"

subsection \<open>create\<close>

text \<open>
  The URL computed in each round of the loop of \<open>create\<close>; the format operator
  binds tighter than the concatenation with the protocol.
\<close>

definition zones_url :: "args \<Rightarrow> string" where
  "zones_url a = protocol a @ ''://'' @ host a @ '':'' @ port a @ ''/api/v1/servers/localhost/zones''"

text \<open>
  The loop of \<open>create\<close> with its counter \<open>err_count\<close>. An exception that leaves
  \<open>create_zone\<close> leaves the loop.
\<close>

fun create_loop ::
  "server \<Rightarrow> args \<Rightarrow> (string \<times> string) list \<Rightarrow> zone list \<Rightarrow> int \<Rightarrow> world \<Rightarrow> (exn + int) \<times> world" where
  "create_loop srv a hdrs [] err_count w = (Inr err_count, w)"
| "create_loop srv a hdrs (z # zs) err_count w =
     (case create_zone srv (zones_url a) hdrs z w of
        (Inl error, w1) \<Rightarrow> (Inl error, w1)
      | (Inr True, w1) \<Rightarrow>
          create_loop srv a hdrs zs err_count (create_records srv (zones_url a) hdrs z w1)
      | (Inr False, w1) \<Rightarrow>
          create_loop srv a hdrs zs (err_count + 1)
            (logger ERROR ''Zone %s Creation failed. Skipping record creation'' [Str (z_name z)] w1))"

definition create ::
  "server \<Rightarrow> args \<Rightarrow> (string \<times> string) list \<Rightarrow> config \<Rightarrow> world \<Rightarrow> (exn + unit) \<times> world" where
  "create srv a hdrs data w =
     (case create_loop srv a hdrs (read_zones data) 0 w of
        (Inl error, w1) \<Rightarrow> (Inl error, w1)
      | (Inr err_count, w1) \<Rightarrow>
          if err_count > 0 then (Inl (PyException ''Create operation failed''), w1)
          else (Inr (), w1))"

subsection \<open>delete\<close>

definition delete_record_payload :: "rrecord \<Rightarrow> json" where
  "delete_record_payload r =
     JObj [(''rrsets'',
            JList [JObj [(''name'', JStr (r_name r)),
                         (''type'', JStr (r_type r)),
                         (''changetype'', JStr ''DELETE'')]])]"

text \<open>The body of the loop of \<open>delete_records\<close>, for one record.\<close>

definition delete_record ::
  "server \<Rightarrow> string \<Rightarrow> (string \<times> string) list \<Rightarrow> zone \<Rightarrow> rrecord \<Rightarrow> world \<Rightarrow> world" where
  "delete_record srv u hdrs z r w =
     (let w1 = logger INFO ''Request to delete record  %s'' [Str (r_name r)] w in
      case zone_exists srv u hdrs w1 of
        (True, w2) \<Rightarrow>
          (case requests srv (patch_request u hdrs (delete_record_payload r)) w2 of
             (Inl error, w3) \<Rightarrow> logger ERROR ''Error: {error}'' [Exc error] w3
           | (Inr status, w3) \<Rightarrow>
               (case raise_for_status status of
                  Inl error \<Rightarrow> logger ERROR ''Error: {error}'' [Exc error] w3
                | Inr _ \<Rightarrow> logger INFO ''Successful deleted DNS record %s'' [Str (r_name r)] w3))
      | (False, w2) \<Rightarrow>
          logger INFO ''Zone %s for the record %s requested to be deleted does not exists''
            [Str (z_name z), Str (r_name r)] w2)"

fun delete_records_loop ::
  "server \<Rightarrow> string \<Rightarrow> (string \<times> string) list \<Rightarrow> zone \<Rightarrow> rrecord list \<Rightarrow> world \<Rightarrow> world" where
  "delete_records_loop srv u hdrs z [] w = w"
| "delete_records_loop srv u hdrs z (r # rs) w =
     delete_records_loop srv u hdrs z rs (delete_record srv u hdrs z r w)"

definition delete_records ::
  "server \<Rightarrow> string \<Rightarrow> (string \<times> string) list \<Rightarrow> zone \<Rightarrow> world \<Rightarrow> world" where
  "delete_records srv u hdrs z w = delete_records_loop srv u hdrs z (z_records z) w"

definition delete_request :: "string \<Rightarrow> (string \<times> string) list \<Rightarrow> zone \<Rightarrow> request" where
  "delete_request u hdrs z =
     \<lparr>req_method = DELETE, req_url = u,
      req_body = Some (JObj [(''name'', JStr (z_name z))]), req_headers = hdrs\<rparr>"

definition delete_zone ::
  "server \<Rightarrow> string \<Rightarrow> (string \<times> string) list \<Rightarrow> zone \<Rightarrow> world \<Rightarrow> world" where
  "delete_zone srv u hdrs z w =
     (let w1 = logger INFO ''Request to delete Zone %s'' [Str (z_name z)] w in
      case zone_exists srv u hdrs w1 of
        (True, w2) \<Rightarrow>
          (case requests srv (delete_request u hdrs z) w2 of
             (Inl error, w3) \<Rightarrow> logger ERROR ''Error: {error}'' [Exc error] w3
           | (Inr status, w3) \<Rightarrow>
               (case raise_for_status status of
                  Inl error \<Rightarrow> logger ERROR ''Error: {error}'' [Exc error] w3
                | Inr _ \<Rightarrow> logger INFO ''Successful deleted zone %s'' [Str (z_name z)] w3))
      | (False, w2) \<Rightarrow>
          logger INFO ''Zone %s requested to be deleted does not exists'' [Str (z_name z)] w2)"

text \<open>The URL computed in each round of the loop of \<open>delete\<close>.\<close>

definition zone_url :: "args \<Rightarrow> zone \<Rightarrow> string" where
  "zone_url a z =
     protocol a @ ''://'' @ host a @ '':'' @ port a @ ''/api/v1/servers/localhost/zones/'' @ z_name z"

fun delete_loop ::
  "server \<Rightarrow> args \<Rightarrow> (string \<times> string) list \<Rightarrow> zone list \<Rightarrow> world \<Rightarrow> world" where
  "delete_loop srv a hdrs [] w = w"
| "delete_loop srv a hdrs (z # zs) w =
     delete_loop srv a hdrs zs
       (delete_zone srv (zone_url a z) hdrs z
          (delete_records srv (zone_url a z) hdrs z w))"

text \<open>
  \<open>delete\<close> holds no \<open>raise\<close>, and every HTTP call below it sits in a
  \<open>try\<close> whose handler only logs: it always returns normally.
\<close>

definition delete ::
  "server \<Rightarrow> args \<Rightarrow> (string \<times> string) list \<Rightarrow> config \<Rightarrow> world \<Rightarrow> (exn + unit) \<times> world" where
  "delete srv a hdrs data w = (Inr (), delete_loop srv a hdrs (read_zones data) w)"

subsection \<open>main\<close>

text \<open>
  \<open>main\<close> after the command line is parsed and the document is loaded
  (\<open>None\<close> is the empty document). The two \<open>try\<close> blocks, \<open>run_create\<close>
  and \<open>run_delete\<close> here, catch every exception.
\<close>

definition run_create :: "server \<Rightarrow> args \<Rightarrow> (string \<times> string) list \<Rightarrow> config \<Rightarrow> world \<Rightarrow> world" where
  "run_create srv a hdrs data w =
     (case create srv a hdrs data w of
        (Inr _, w1) \<Rightarrow>
          print_line ''Create operation successful''
            (logger INFO ''Create operation successful'' [] w1)
      | (Inl _, w1) \<Rightarrow>
          print_line ''Create operation failed''
            (logger ERROR ''Create operation failed'' [] w1))"

definition run_delete :: "server \<Rightarrow> args \<Rightarrow> (string \<times> string) list \<Rightarrow> config \<Rightarrow> world \<Rightarrow> world" where
  "run_delete srv a hdrs data w =
     (case delete srv a hdrs data w of
        (Inr _, w1) \<Rightarrow>
          print_line ''Delete operation successful''
            (logger INFO ''Delete operation successful'' [] w1)
      | (Inl _, w1) \<Rightarrow>
          print_line ''Delete operation failed''
            (logger ERROR ''Delete operation failed'' [] w1))"

definition main :: "server \<Rightarrow> args \<Rightarrow> config option \<Rightarrow> world \<Rightarrow> (exn + unit) \<times> world" where
  "main srv a doc w =
     (case doc of
        None \<Rightarrow> (Inl (PyException ''No config settings loaded''), w)
      | Some data \<Rightarrow>
          (case validate_data data of
             Inl error \<Rightarrow> (Inl error, w)
           | Inr _ \<Rightarrow>
               (let hdrs = [(''X-API-Key'', key a)];
                    w1 = (if operation a = ''create'' then run_create srv a hdrs data w else w);
                    w2 = (if operation a = ''delete'' then run_delete srv a hdrs data w1 else w1)
                in (Inr (), w2))))"

section \<open>Observers and example inputs\<close>

text \<open>
  The outcome of one HTTP call counts as a success for the script when the library
  returns a response and \<open>raise_for_status\<close> does not raise on it.
\<close>

definition ok_response :: "response \<Rightarrow> bool" where
  "ok_response r = (case r of Status c \<Rightarrow> \<not> (400 \<le> c \<and> c < 600) | Failed f \<Rightarrow> False)"

text \<open>The logger call that \<open>create\<close> makes when it counts a failed zone.\<close>

definition is_zone_failure_entry :: "log_entry \<Rightarrow> bool" where
  "is_zone_failure_entry e =
     (case e of Log lv fmt as \<Rightarrow>
        lv = ERROR \<and> fmt = ''Zone %s Creation failed. Skipping record creation'')"

fun json_get :: "json \<Rightarrow> string \<Rightarrow> json option" where
  "json_get (JObj kvs) k = map_of kvs k"
| "json_get _ k = None"

text \<open>How many such logger calls a world holds.\<close>

definition zone_failures_logged :: "world \<Rightarrow> nat" where
  "zone_failures_logged w = length (filter is_zone_failure_entry (logs w))"

text \<open>
  The logger calls at level ERROR that a world holds, and the number of requests of a
  list, other than probes, that the server answers with a failure when they are issued
  in order after the history \<open>hist\<close>.
\<close>

definition is_error_entry :: "log_entry \<Rightarrow> bool" where
  "is_error_entry e = (case e of Log lv fmt as \<Rightarrow> lv = ERROR)"

definition errors_logged :: "world \<Rightarrow> nat" where
  "errors_logged w = length (filter is_error_entry (logs w))"

fun failed_writes :: "server \<Rightarrow> request list \<Rightarrow> request list \<Rightarrow> nat" where
  "failed_writes srv hist [] = 0"
| "failed_writes srv hist (rq # rqs) =
     (if req_method rq \<noteq> GET \<and> \<not> ok_response (srv hist rq) then 1 else 0)
     + failed_writes srv (hist @ [rq]) rqs"

definition args0 :: args where
  "args0 = \<lparr>protocol = ''http'', host = ''127.0.0.1'', port = ''8081'',
            key = ''abcdef123456'', operation = ''create''\<rparr>"

definition args_delete :: args where
  "args_delete = args0\<lparr>operation := ''delete''\<rparr>"

definition hdrs0 :: "(string \<times> string) list" where
  "hdrs0 = [(''X-API-Key'', ''abcdef123456'')]"

definition rec_a :: rrecord where
  "rec_a = \<lparr>r_name = ''a.example.'', r_type = ''A'', r_ttl = 300, r_disabled = False,
            r_content = [''10.0.0.1'']\<rparr>"

definition rec_www :: rrecord where
  "rec_www = \<lparr>r_name = ''www.b.example.'', r_type = ''A'', r_ttl = 300, r_disabled = False,
              r_content = [''1.2.3.4'', ''5.6.7.8'']\<rparr>"

definition rec_mx :: rrecord where
  "rec_mx = \<lparr>r_name = ''b.example.'', r_type = ''MX'', r_ttl = 3600, r_disabled = True,
             r_content = [''10 mail.b.example.'']\<rparr>"

definition zone_a :: zone where
  "zone_a = \<lparr>z_name = ''a.example.'', z_kind = ''NATIVE'', z_nameservers = [],
             z_masters = [], z_records = [rec_a]\<rparr>"

definition zone_b :: zone where
  "zone_b = \<lparr>z_name = ''b.example.'', z_kind = ''MASTER'',
             z_nameservers = [''ns1.b.example.''], z_masters = [],
             z_records = [rec_www, rec_mx]\<rparr>"

definition zone_no_ns :: zone where
  "zone_no_ns = \<lparr>z_name = ''c.example.'', z_kind = ''MASTER'', z_nameservers = [],
                 z_masters = [], z_records = [rec_a]\<rparr>"

definition zone_slave :: zone where
  "zone_slave = \<lparr>z_name = ''s.example.'', z_kind = ''SLAVE'',
                 z_nameservers = [''ns1.s.example.''], z_masters = [''192.0.2.1''],
                 z_records = []\<rparr>"

text \<open>
  Example servers. No zone exists yet; the creation of \<open>zone_a\<close> is answered with
  status 422, every other creation with 201.
\<close>

definition srv_a_rejected :: server where
  "srv_a_rejected hist rq =
     (if req_method rq = GET then Status 404
      else if req_method rq = POST then
        (if req_body rq = Some (zone_payload zone_a) then Status 422 else Status 201)
      else Status 204)"

text \<open>The same, but the creation of \<open>zone_a\<close> times out in the HTTP library.\<close>

definition srv_a_timeout :: server where
  "srv_a_timeout hist rq =
     (if req_method rq = GET then Status 404
      else if req_method rq = POST then
        (if req_body rq = Some (zone_payload zone_a) then Failed Timeout else Status 201)
      else Status 204)"

text \<open>Every zone exists; every record update is answered with status 500.\<close>

definition srv_patch_500 :: server where
  "srv_patch_500 hist rq =
     (if req_method rq = GET then Status 200
      else if req_method rq = PATCH then Status 500
      else Status 204)"

text \<open>
  Every zone exists; every record deletion is answered with status 500 and every zone
  deletion times out in the HTTP library.
\<close>

definition srv_deletes_fail :: server where
  "srv_deletes_fail hist rq =
     (if req_method rq = GET then Status 200
      else if req_method rq = PATCH then Status 500
      else Failed Timeout)"

text \<open>Every call is answered with status 304.\<close>

definition srv_not_modified :: server where
  "srv_not_modified hist rq = Status 304"

text \<open>Every call fails to connect.\<close>

definition srv_down :: server where
  "srv_down hist rq = Failed ConnectionError"

section \<open>Effects of the primitive operations\<close>

lemma logger_sel [simp]:
  "calls (logger lv fmt as w) = calls w"
  "logs (logger lv fmt as w) = logs w @ [Log lv fmt as]"
  "stdout (logger lv fmt as w) = stdout w"
  by (simp_all add: logger_def)

lemma print_line_sel [simp]:
  "calls (print_line m w) = calls w"
  "logs (print_line m w) = logs w"
  "stdout (print_line m w) = stdout w @ [m]"
  by (simp_all add: print_line_def)

lemma requests_sel [simp]:
  "calls (snd (requests srv rq w)) = calls w @ [rq]"
  "logs (snd (requests srv rq w)) = logs w"
  "stdout (snd (requests srv rq w)) = stdout w"
  by (simp_all add: requests_def)

lemma requests_fst:
  "fst (requests srv rq w) =
     (case srv (calls w) rq of Failed f \<Rightarrow> Inl (RequestException f) | Status c \<Rightarrow> Inr c)"
  by (simp add: requests_def)

lemma zone_exists_fst:
  "fst (zone_exists srv u hdrs w) = ok_response (srv (calls w) (get_request u hdrs))"
  by (simp add: zone_exists_def requests_def raise_for_status_def ok_response_def Let_def
      split: response.splits)

lemma zone_exists_sel [simp]:
  "calls (snd (zone_exists srv u hdrs w)) = calls w @ [get_request u hdrs]"
  "logs (snd (zone_exists srv u hdrs w)) =
     logs w @ [Log DEBUG ''Sending GET request to %s'' [Str u]]"
  "stdout (snd (zone_exists srv u hdrs w)) = stdout w"
  by (simp_all add: zone_exists_def requests_def raise_for_status_def Let_def
      split: response.splits)

section \<open>Validation\<close>

lemma validate_zones_iff:
  "(validate_zones zs \<noteq> Inr ()) =
     (\<exists>z \<in> set zs. (z_kind z = ''MASTER'' \<and> length (z_nameservers z) < 1) \<or>
                    (z_kind z = ''SLAVE'' \<and> length (z_masters z) < 1))"
  by (induction zs) auto

lemma validate_zones_skip:
  "z_kind z \<noteq> ''MASTER'' \<Longrightarrow> z_kind z \<noteq> ''SLAVE'' \<Longrightarrow>
   validate_zones (zs1 @ z # zs2) = validate_zones (zs1 @ zs2)"
  by (induction zs1) auto

lemma validate_zones_raises:
  "validate_zones zs \<noteq> Inr () \<Longrightarrow> \<exists>msg. validate_zones zs = Inl (PyException msg)"
  by (induction zs) (auto split: if_splits)

lemma main_validation_error:
  "validate_data data \<noteq> Inr () \<Longrightarrow> main srv a (Some data) w = (validate_data data, w)"
  by (cases "validate_data data") (simp_all add: main_def)

text \<open>
  C3. Validation raises if and only if some zone of the list has kind "MASTER" and
  fewer than one nameserver, or kind "SLAVE" and fewer than one master. A missing
  \<open>zones\<close> key, a null \<open>zones\<close> value and an empty list all pass. When validation
  raises, \<open>main\<close> ends with that exception and the world it started in: no HTTP call
  is made.
\<close>

theorem validate_data_fails_iff:
  "(validate_data data \<noteq> Inr ()) =
     (\<exists>z \<in> set (read_zones data).
        (z_kind z = ''MASTER'' \<and> length (z_nameservers z) < 1) \<or>
        (z_kind z = ''SLAVE'' \<and> length (z_masters z) < 1))
   \<and> validate_data No_zones_key = Inr ()
   \<and> validate_data Zones_null = Inr ()
   \<and> validate_data (Zones []) = Inr ()
   \<and> (validate_data data \<noteq> Inr () \<longrightarrow>
        (\<exists>msg. validate_data data = Inl (PyException msg))
        \<and> main srv a (Some data) w = (validate_data data, w)
        \<and> calls (snd (main srv a (Some data) w)) = calls w)"
proof -
  have "validate_data data \<noteq> Inr () \<longrightarrow> (\<exists>msg. validate_data data = Inl (PyException msg))"
    by (simp add: validate_data_def validate_zones_raises)
  then show ?thesis
    by (simp add: main_validation_error)
       (simp add: validate_data_def validate_zones_iff read_zones_def)
qed

theorem validate_data_fails_iff_witness:
  "validate_data (Zones [zone_a, zone_no_ns]) \<noteq> Inr ()
   \<and> main srv_a_rejected args0 (Some (Zones [zone_a, zone_no_ns])) world0 =
       (Inl (PyException ''A nameserver is required to create a MASTER zone''), world0)
   \<and> calls (snd (main srv_a_rejected args0 (Some (Zones [zone_a, zone_no_ns])) world0)) = []"
  using validate_data_fails_iff [of "Zones [zone_a, zone_no_ns]" srv_a_rejected args0 world0]
  by (simp add: validate_data_def read_zones_def zone_a_def zone_no_ns_def world0_def)

text \<open>
  C10. A zone whose kind is neither "MASTER" nor "SLAVE" is not checked: taking it out
  of the list leaves the result of validation as it is, and a list holding only such a
  zone is accepted, whatever its nameservers and masters are.
\<close>

theorem validate_data_ignores_other_kinds:
  "z_kind z \<noteq> ''MASTER'' \<Longrightarrow> z_kind z \<noteq> ''SLAVE'' \<Longrightarrow>
   validate_data (Zones (zs1 @ z # zs2)) = validate_data (Zones (zs1 @ zs2))
   \<and> validate_data (Zones [z]) = Inr ()"
  by (simp add: validate_data_def read_zones_def validate_zones_skip)

theorem validate_data_ignores_other_kinds_witness:
  "z_kind zone_a \<noteq> ''MASTER'' \<and> z_kind zone_a \<noteq> ''SLAVE''
   \<and> z_nameservers zone_a = [] \<and> z_masters zone_a = []
   \<and> validate_data (Zones ([zone_b] @ zone_a # [zone_no_ns])) =
       validate_data (Zones ([zone_b] @ [zone_no_ns]))
   \<and> validate_data (Zones [zone_a]) = Inr ()"
  using validate_data_ignores_other_kinds [of zone_a "[zone_b]" "[zone_no_ns]"]
  by (simp add: zone_a_def)

section \<open>The existence prober\<close>

text \<open>
  C5 (as stated, refuted). The claim says the prober returns true only on a 2xx
  response. A response with status 304 is not an error for \<open>raise_for_status\<close>,
  so the prober returns true on it, and 304 is not a 2xx status.
\<close>

theorem zone_exists_true_on_304:
  "srv_not_modified (calls world0) (get_request (zone_url args0 zone_a) hdrs0) = Status 304
   \<and> fst (zone_exists srv_not_modified (zone_url args0 zone_a) hdrs0 world0)
   \<and> \<not> (200 \<le> (304::int) \<and> (304::int) < 300)"
  by (simp add: zone_exists_fst ok_response_def srv_not_modified_def)

text \<open>
  C5 (amended). Every call of the prober issues exactly one GET request, and it returns
  true exactly when the library returns a response whose status is outside 400..599: on
  every 2xx response in particular. It returns false on a 4xx or 5xx status and on a
  network failure or timeout. It always returns a boolean: no exception leaves it.
\<close>

theorem zone_exists_single_get:
  "calls (snd (zone_exists srv u hdrs w)) = calls w @ [get_request u hdrs]
   \<and> req_method (get_request u hdrs) = GET
   \<and> fst (zone_exists srv u hdrs w) =
       (case srv (calls w) (get_request u hdrs) of
          Status c \<Rightarrow> c < 400 \<or> 600 \<le> c
        | Failed f \<Rightarrow> False)
   \<and> (srv (calls w) (get_request u hdrs) = Status c \<and> 200 \<le> c \<and> c < 300 \<longrightarrow>
        fst (zone_exists srv u hdrs w))
   \<and> (srv (calls w) (get_request u hdrs) = Status c \<and> 400 \<le> c \<and> c < 600 \<longrightarrow>
        \<not> fst (zone_exists srv u hdrs w))
   \<and> (srv (calls w) (get_request u hdrs) = Failed f \<longrightarrow>
        \<not> fst (zone_exists srv u hdrs w))"
  by (auto simp: zone_exists_fst ok_response_def get_request_def split: response.splits)

theorem zone_exists_single_get_witness:
  "srv_patch_500 (calls world0) (get_request (zone_url args0 zone_a) hdrs0) = Status 200
   \<and> fst (zone_exists srv_patch_500 (zone_url args0 zone_a) hdrs0 world0)
   \<and> srv_a_rejected (calls world0) (get_request (zone_url args0 zone_a) hdrs0) = Status 404
   \<and> \<not> fst (zone_exists srv_a_rejected (zone_url args0 zone_a) hdrs0 world0)
   \<and> srv_down (calls world0) (get_request (zone_url args0 zone_a) hdrs0) = Failed ConnectionError
   \<and> \<not> fst (zone_exists srv_down (zone_url args0 zone_a) hdrs0 world0)
   \<and> calls (snd (zone_exists srv_down (zone_url args0 zone_a) hdrs0 world0)) =
       [get_request (zone_url args0 zone_a) hdrs0]"
  using zone_exists_single_get [of srv_patch_500 "zone_url args0 zone_a" hdrs0 world0 200]
    zone_exists_single_get [of srv_a_rejected "zone_url args0 zone_a" hdrs0 world0 404]
    zone_exists_single_get [of srv_down "zone_url args0 zone_a" hdrs0 world0 0 ConnectionError]
  by (simp add: srv_patch_500_def srv_a_rejected_def srv_down_def get_request_def world0_def)

section \<open>Zone creation\<close>

text \<open>
  C6. The payload of a zone creation always holds the keys \<open>masters\<close> and
  \<open>nameservers\<close>. For the kinds "MASTER" and "NATIVE", \<open>masters\<close> is the empty
  list and \<open>nameservers\<close> the zone's nameservers; for every other kind,
  \<open>nameservers\<close> is the empty list and \<open>masters\<close> the zone's masters. It is the
  body of the POST request.
\<close>

theorem zone_payload_both_sides:
  "zone_payload z =
     JObj [(''name'', JStr (z_name z)),
           (''kind'', JStr (z_kind z)),
           (''masters'', JList (if z_kind z = ''MASTER'' \<or> z_kind z = ''NATIVE''
                                then [] else map JStr (z_masters z))),
           (''nameservers'', JList (if z_kind z = ''MASTER'' \<or> z_kind z = ''NATIVE''
                                then map JStr (z_nameservers z) else []))]
   \<and> json_get (zone_payload z) ''masters'' =
       Some (JList (if z_kind z = ''MASTER'' \<or> z_kind z = ''NATIVE''
                    then [] else map JStr (z_masters z)))
   \<and> json_get (zone_payload z) ''nameservers'' =
       Some (JList (if z_kind z = ''MASTER'' \<or> z_kind z = ''NATIVE''
                    then map JStr (z_nameservers z) else []))
   \<and> req_body (post_request u hdrs z) = Some (zone_payload z)"
  by (simp add: zone_payload_def post_request_def)

theorem zone_payload_both_sides_witness:
  "zone_payload zone_b =
     JObj [(''name'', JStr ''b.example.''), (''kind'', JStr ''MASTER''),
           (''masters'', JList []), (''nameservers'', JList [JStr ''ns1.b.example.''])]
   \<and> zone_payload zone_slave =
     JObj [(''name'', JStr ''s.example.''), (''kind'', JStr ''SLAVE''),
           (''masters'', JList [JStr ''192.0.2.1'']), (''nameservers'', JList [])]"
  using zone_payload_both_sides [of zone_b] zone_payload_both_sides [of zone_slave]
  by (simp add: zone_b_def zone_slave_def)

lemma create_zone_present:
  "fst (zone_exists srv (u @ ''/'' @ z_name z) hdrs w) \<Longrightarrow>
   create_zone srv u hdrs z w = (Inr True, snd (zone_exists srv (u @ ''/'' @ z_name z) hdrs w))"
  by (cases "zone_exists srv (u @ ''/'' @ z_name z) hdrs w") (simp add: create_zone_def)

lemma create_zone_absent_fst:
  "\<not> fst (zone_exists srv (u @ ''/'' @ z_name z) hdrs w) \<Longrightarrow>
   fst (create_zone srv u hdrs z w) =
     (case srv (calls w @ [get_request (u @ ''/'' @ z_name z) hdrs]) (post_request u hdrs z) of
        Failed f \<Rightarrow> Inl (RequestException f)
      | Status c \<Rightarrow> Inr (c = 201))"
proof -
  assume a: "\<not> fst (zone_exists srv (u @ ''/'' @ z_name z) hdrs w)"
  obtain b w1 where zx: "zone_exists srv (u @ ''/'' @ z_name z) hdrs w = (b, w1)"
    by (cases "zone_exists srv (u @ ''/'' @ z_name z) hdrs w")
  from a zx have nb: "\<not> b" by simp
  have cw1: "calls w1 = calls w @ [get_request (u @ ''/'' @ z_name z) hdrs]"
    using zone_exists_sel(1) [of srv "u @ ''/'' @ z_name z" hdrs w, unfolded zx] by simp
  show ?thesis
    unfolding create_zone_def zx using nb cw1
    by (simp add: Let_def requests_def split: response.splits)
qed

lemma create_zone_absent_calls:
  "\<not> fst (zone_exists srv (u @ ''/'' @ z_name z) hdrs w) \<Longrightarrow>
   calls (snd (create_zone srv u hdrs z w)) =
     calls w @ [get_request (u @ ''/'' @ z_name z) hdrs, post_request u hdrs z]"
proof -
  assume a: "\<not> fst (zone_exists srv (u @ ''/'' @ z_name z) hdrs w)"
  obtain b w1 where zx: "zone_exists srv (u @ ''/'' @ z_name z) hdrs w = (b, w1)"
    by (cases "zone_exists srv (u @ ''/'' @ z_name z) hdrs w")
  from a zx have nb: "\<not> b" by simp
  have cw1: "calls w1 = calls w @ [get_request (u @ ''/'' @ z_name z) hdrs]"
    using zone_exists_sel(1) [of srv "u @ ''/'' @ z_name z" hdrs w, unfolded zx] by simp
  show ?thesis
    unfolding create_zone_def zx using nb cw1
    by (simp add: Let_def requests_def split: response.splits)
qed

text \<open>The three ways one round of the loop of \<open>create\<close> can go.\<close>

lemma create_loop_True:
  "fst (create_zone srv (zones_url a) hdrs z w) = Inr True \<Longrightarrow>
   create_loop srv a hdrs (z # zs) k w =
     create_loop srv a hdrs zs k
       (create_records srv (zones_url a) hdrs z (snd (create_zone srv (zones_url a) hdrs z w)))"
  by (cases "create_zone srv (zones_url a) hdrs z w") simp

lemma create_loop_False:
  "fst (create_zone srv (zones_url a) hdrs z w) = Inr False \<Longrightarrow>
   create_loop srv a hdrs (z # zs) k w =
     create_loop srv a hdrs zs (k + 1)
       (logger ERROR ''Zone %s Creation failed. Skipping record creation'' [Str (z_name z)]
          (snd (create_zone srv (zones_url a) hdrs z w)))"
  by (cases "create_zone srv (zones_url a) hdrs z w") simp

lemma create_loop_raise:
  "fst (create_zone srv (zones_url a) hdrs z w) = Inl e \<Longrightarrow>
   create_loop srv a hdrs (z # zs) k w = (Inl e, snd (create_zone srv (zones_url a) hdrs z w))"
  by (cases "create_zone srv (zones_url a) hdrs z w") simp

text \<open>
  C4. When the probe of \<open>base/zoneName\<close> reports the zone present, \<open>create_zone\<close>
  issues no POST (the probe's GET is its only call) and returns true, and the loop of
  \<open>create\<close> goes on with the zone's records. When the probe reports it absent,
  \<open>create_zone\<close> issues exactly one POST after the probe, and it returns true if and
  only if the response to that POST has status 201.
\<close>

theorem create_zone_probe_decides:
  "(fst (zone_exists srv (u @ ''/'' @ z_name z) hdrs w) \<longrightarrow>
      create_zone srv u hdrs z w = (Inr True, snd (zone_exists srv (u @ ''/'' @ z_name z) hdrs w))
      \<and> calls (snd (create_zone srv u hdrs z w)) =
          calls w @ [get_request (u @ ''/'' @ z_name z) hdrs])
   \<and> (fst (zone_exists srv (zones_url a @ ''/'' @ z_name z) hdrs w) \<longrightarrow>
      create_loop srv a hdrs (z # zs) k w =
        create_loop srv a hdrs zs k
          (create_records srv (zones_url a) hdrs z
             (snd (zone_exists srv (zones_url a @ ''/'' @ z_name z) hdrs w))))
   \<and> (\<not> fst (zone_exists srv (u @ ''/'' @ z_name z) hdrs w) \<longrightarrow>
      calls (snd (create_zone srv u hdrs z w)) =
        calls w @ [get_request (u @ ''/'' @ z_name z) hdrs, post_request u hdrs z]
      \<and> (fst (create_zone srv u hdrs z w) = Inr True) =
          (srv (calls w @ [get_request (u @ ''/'' @ z_name z) hdrs]) (post_request u hdrs z)
             = Status 201))"
proof (intro conjI impI)
  assume p: "fst (zone_exists srv (u @ ''/'' @ z_name z) hdrs w)"
  show "create_zone srv u hdrs z w =
      (Inr True, snd (zone_exists srv (u @ ''/'' @ z_name z) hdrs w))"
    using p by (rule create_zone_present)
  then show "calls (snd (create_zone srv u hdrs z w)) =
      calls w @ [get_request (u @ ''/'' @ z_name z) hdrs]"
    by simp
next
  assume p: "fst (zone_exists srv (zones_url a @ ''/'' @ z_name z) hdrs w)"
  then show "create_loop srv a hdrs (z # zs) k w =
        create_loop srv a hdrs zs k
          (create_records srv (zones_url a) hdrs z
             (snd (zone_exists srv (zones_url a @ ''/'' @ z_name z) hdrs w)))"
    by (simp add: create_zone_present)
next
  assume n: "\<not> fst (zone_exists srv (u @ ''/'' @ z_name z) hdrs w)"
  then show "calls (snd (create_zone srv u hdrs z w)) =
        calls w @ [get_request (u @ ''/'' @ z_name z) hdrs, post_request u hdrs z]"
    by (rule create_zone_absent_calls)
  show "(fst (create_zone srv u hdrs z w) = Inr True) =
          (srv (calls w @ [get_request (u @ ''/'' @ z_name z) hdrs]) (post_request u hdrs z)
             = Status 201)"
    using n by (simp add: create_zone_absent_fst split: response.splits)
qed

theorem create_zone_probe_decides_witness:
  "fst (zone_exists srv_patch_500 (zones_url args0 @ ''/'' @ z_name zone_a) hdrs0 world0)
   \<and> map req_method (calls (snd (create_zone srv_patch_500 (zones_url args0) hdrs0 zone_a world0)))
       = [GET]
   \<and> fst (create_zone srv_patch_500 (zones_url args0) hdrs0 zone_a world0) = Inr True
   \<and> \<not> fst (zone_exists srv_a_rejected (zones_url args0 @ ''/'' @ z_name zone_a) hdrs0 world0)
   \<and> map req_method (calls (snd (create_zone srv_a_rejected (zones_url args0) hdrs0 zone_a world0)))
       = [GET, POST]
   \<and> fst (create_zone srv_a_rejected (zones_url args0) hdrs0 zone_a world0) \<noteq> Inr True
   \<and> \<not> fst (zone_exists srv_a_rejected (zones_url args0 @ ''/'' @ z_name zone_b) hdrs0 world0)
   \<and> fst (create_zone srv_a_rejected (zones_url args0) hdrs0 zone_b world0) = Inr True"
  using create_zone_probe_decides [of srv_patch_500 "zones_url args0" zone_a hdrs0 world0 args0 "[]" 0]
    create_zone_probe_decides [of srv_a_rejected "zones_url args0" zone_a hdrs0 world0 args0 "[]" 0]
    create_zone_probe_decides [of srv_a_rejected "zones_url args0" zone_b hdrs0 world0 args0 "[]" 0]
  by (simp add: zone_exists_fst ok_response_def srv_patch_500_def srv_a_rejected_def
      get_request_def post_request_def world0_def zone_payload_def zone_a_def zone_b_def)

section \<open>Record updates\<close>

lemma create_record_calls [simp]:
  "calls (create_record srv u hdrs z r w) =
     calls w @ [patch_request (u @ ''/'' @ z_name z) hdrs (record_payload r)]"
  by (simp add: create_record_def requests_def raise_for_status_def Let_def
      split: response.splits)

lemma create_records_loop_calls:
  "calls (create_records_loop srv u hdrs z rs w) =
     calls w @ map (\<lambda>r. patch_request (u @ ''/'' @ z_name z) hdrs (record_payload r)) rs"
  by (induction rs arbitrary: w) simp_all

text \<open>
  C7. \<open>create_records\<close> issues exactly one PATCH request per record of the zone, in
  order, to \<open>base/zoneName\<close>. The payload of a record holds a single rrset with the
  record's name, type and ttl, the changetype "REPLACE", and a \<open>records\<close> array with
  as many entries as the record has content values: entry \<open>i\<close> pairs content value
  \<open>i\<close> with the record's disabled flag.
\<close>

theorem create_records_one_patch_per_record:
  "calls (create_records srv u hdrs z w) =
     calls w @ map (\<lambda>r. patch_request (u @ ''/'' @ z_name z) hdrs (record_payload r))
                   (z_records z)
   \<and> req_method (patch_request (u @ ''/'' @ z_name z) hdrs (record_payload r)) = PATCH
   \<and> (\<exists>es. record_payload r =
              JObj [(''rrsets'',
                     JList [JObj [(''name'', JStr (r_name r)),
                                  (''type'', JStr (r_type r)),
                                  (''ttl'', JInt (r_ttl r)),
                                  (''changetype'', JStr ''REPLACE''),
                                  (''records'', JList es)]])]
          \<and> length es = length (r_content r)
          \<and> (\<forall>i < length (r_content r).
                es ! i = JObj [(''content'', JStr (r_content r ! i)),
                               (''disabled'', JBool (r_disabled r))]))"
  by (simp add: create_records_def create_records_loop_calls record_payload_def
      patch_request_def)

theorem create_records_one_patch_per_record_witness:
  "record_payload rec_www =
     JObj [(''rrsets'',
            JList [JObj [(''name'', JStr ''www.b.example.''),
                         (''type'', JStr ''A''),
                         (''ttl'', JInt 300),
                         (''changetype'', JStr ''REPLACE''),
                         (''records'',
                          JList [JObj [(''content'', JStr ''1.2.3.4''), (''disabled'', JBool False)],
                                 JObj [(''content'', JStr ''5.6.7.8''), (''disabled'', JBool False)]])]])]
   \<and> calls (create_records srv_patch_500 (zones_url args0) hdrs0 zone_b world0) =
       [patch_request (zones_url args0 @ ''/b.example.'') hdrs0 (record_payload rec_www),
        patch_request (zones_url args0 @ ''/b.example.'') hdrs0 (record_payload rec_mx)]"
  using create_records_one_patch_per_record
          [of srv_patch_500 "zones_url args0" hdrs0 zone_b world0 rec_www]
  by (simp add: rec_www_def zone_b_def world0_def record_payload_def)

section \<open>The create path\<close>

lemma zfl_logger:
  "zone_failures_logged (logger lv fmt as w) =
     zone_failures_logged w +
       (if lv = ERROR \<and> fmt = ''Zone %s Creation failed. Skipping record creation''
        then 1 else 0)"
  by (simp add: zone_failures_logged_def is_zone_failure_entry_def)

lemma requests_frame:
  "requests srv rq w = (r, w') \<Longrightarrow>
   zone_failures_logged w' = zone_failures_logged w \<and> stdout w' = stdout w"
  by (auto simp: requests_def zone_failures_logged_def)

lemma zone_exists_frame:
  "zone_exists srv u hdrs w = (b, w') \<Longrightarrow>
   zone_failures_logged w' = zone_failures_logged w \<and> stdout w' = stdout w"
  using zone_exists_sel(2,3) [of srv u hdrs w]
  by (simp add: zone_failures_logged_def is_zone_failure_entry_def)

lemma create_zone_frame:
  "create_zone srv u hdrs z w = (r, w') \<Longrightarrow>
   zone_failures_logged w' = zone_failures_logged w \<and> stdout w' = stdout w"
  unfolding create_zone_def Let_def
  by (auto simp: zfl_logger split: prod.splits bool.splits sum.splits if_splits
      dest!: zone_exists_frame requests_frame)

lemma create_record_frame:
  "zone_failures_logged (create_record srv u hdrs z r w) = zone_failures_logged w
   \<and> stdout (create_record srv u hdrs z r w) = stdout w"
  unfolding create_record_def Let_def
  by (auto simp: zfl_logger split: prod.splits sum.splits dest!: requests_frame)

lemma create_records_loop_frame:
  "zone_failures_logged (create_records_loop srv u hdrs z rs w) = zone_failures_logged w
   \<and> stdout (create_records_loop srv u hdrs z rs w) = stdout w"
  by (induction rs arbitrary: w) (simp_all add: create_record_frame)

lemma create_records_frame:
  "zone_failures_logged (create_records srv u hdrs z w) = zone_failures_logged w
   \<and> stdout (create_records srv u hdrs z w) = stdout w"
  by (simp add: create_records_def create_records_loop_frame)


text \<open>
  An exception that leaves the loop of \<open>create\<close> is caught by \<open>main\<close>, which
  prints the failure line.
\<close>

lemma create_loop_stdout:
  "stdout (snd (create_loop srv a hdrs zs k w)) = stdout w"
proof (induction zs arbitrary: k w)
  case Nil
  then show ?case by simp
next
  case (Cons z zs)
  obtain r w1 where cz: "create_zone srv (zones_url a) hdrs z w = (r, w1)"
    by (cases "create_zone srv (zones_url a) hdrs z w")
  from create_zone_frame [OF cz] have "stdout w1 = stdout w" by simp
  then show ?case
    by (simp add: cz Cons.IH create_records_frame split: sum.splits bool.splits)
qed

lemma run_create_when_loop_raises:
  "fst (create_loop srv a hdrs (read_zones data) 0 w) = Inl e \<Longrightarrow>
   stdout (run_create srv a hdrs data w) = stdout w @ [''Create operation failed'']"
  using create_loop_stdout [of srv a hdrs "read_zones data" 0 w]
  by (cases "create_loop srv a hdrs (read_zones data) 0 w") (simp add: run_create_def create_def)





text \<open>
  The isolation scenario with a creation that the server rejects: the creation of
  \<open>zone_a\<close> is answered with status 422, \<open>create_zone\<close> returns false, one
  failure is counted, and \<open>zone_b\<close> is probed, created and given both record calls.
\<close>

lemma create_isolates_rejected_zone:
  "fst (create_zone srv_a_rejected (zones_url args0) hdrs0 zone_a world0) = Inr False
   \<and> fst (create_loop srv_a_rejected args0 hdrs0 [zone_a, zone_b] 0 world0) = Inr 1
   \<and> calls (snd (create_loop srv_a_rejected args0 hdrs0 [zone_a, zone_b] 0 world0)) =
       [get_request (zones_url args0 @ ''/'' @ z_name zone_a) hdrs0,
        post_request (zones_url args0) hdrs0 zone_a,
        get_request (zones_url args0 @ ''/'' @ z_name zone_b) hdrs0,
        post_request (zones_url args0) hdrs0 zone_b,
        patch_request (zones_url args0 @ ''/'' @ z_name zone_b) hdrs0 (record_payload rec_www),
        patch_request (zones_url args0 @ ''/'' @ z_name zone_b) hdrs0 (record_payload rec_mx)]"
  by code_simp

text \<open>
  C2 (the code diverges). Failure isolation per zone holds only while \<open>create_zone\<close>
  returns. Its POST is the one HTTP call of the script outside a \<open>try\<close>: when the
  library raises there (here a timeout while creating \<open>zone_a\<close>), the exception
  leaves \<open>create_zone\<close> and the loop of \<open>create\<close>. The calls of the run are the
  probe and the POST for \<open>zone_a\<close> only: \<open>zone_b\<close>, whose creation the server
  would answer with 201, is never probed or created and its records get no call. No
  zone failure is counted or logged; \<open>main\<close> prints the failure line.
\<close>

theorem create_aborts_when_post_raises:
  "fst (create_zone srv_a_timeout (zones_url args0) hdrs0 zone_a world0) =
     Inl (RequestException Timeout)
   \<and> fst (create_loop srv_a_timeout args0 hdrs0 [zone_a, zone_b] 0 world0) =
       Inl (RequestException Timeout)
   \<and> calls (snd (create_loop srv_a_timeout args0 hdrs0 [zone_a, zone_b] 0 world0)) =
       [get_request (zones_url args0 @ ''/'' @ z_name zone_a) hdrs0,
        post_request (zones_url args0) hdrs0 zone_a]
   \<and> zone_failures_logged (snd (create_loop srv_a_timeout args0 hdrs0 [zone_a, zone_b] 0 world0)) = 0
   \<and> fst (create_zone srv_a_timeout (zones_url args0) hdrs0 zone_b world0) = Inr True
   \<and> stdout (snd (main srv_a_timeout args0 (Some (Zones [zone_a, zone_b])) world0)) =
       [''Create operation failed'']"
  by code_simp

subsection \<open>Failed record updates\<close>

text \<open>
  C8 (as stated, refuted). The claim says a failed record update is counted as a
  record-level failure. With every update of \<open>zone_a\<close>'s record answered by status
  500, the error is logged once, but the only counter of the create path stays at 0:
  \<open>create\<close> returns normally and \<open>main\<close> prints the success line.
\<close>

theorem record_failure_not_counted:
  "count_list (logs (snd (create_loop srv_patch_500 args0 hdrs0 [zone_a] 0 world0)))
     (Log ERROR ''Error: {error}'' [Exc (HTTPError 500)]) = 1
   \<and> fst (create_loop srv_patch_500 args0 hdrs0 [zone_a] 0 world0) = Inr 0
   \<and> fst (create srv_patch_500 args0 hdrs0 (Zones [zone_a]) world0) = Inr ()
   \<and> stdout (snd (main srv_patch_500 args0 (Some (Zones [zone_a])) world0)) =
       [''Create operation successful'']"
  by code_simp

lemma create_records_loop_append:
  "create_records_loop srv u hdrs z (rs1 @ rs2) w =
     create_records_loop srv u hdrs z rs2 (create_records_loop srv u hdrs z rs1 w)"
  by (induction rs1 arbitrary: w) simp_all

lemma create_record_failure_logs:
  "\<not> ok_response (srv (calls w) (patch_request (u @ ''/'' @ z_name z) hdrs (record_payload r))) \<Longrightarrow>
   \<exists>e. logs (create_record srv u hdrs z r w) =
     logs w @ [Log INFO ''Sending request to create record %s'' [Str (r_name r)],
               Log ERROR ''Error: {error}'' [Exc e]]"
  by (auto simp: create_record_def Let_def requests_def raise_for_status_def ok_response_def
      split: response.splits)

text \<open>
  C8 (amended). A record update that fails (a 4xx or 5xx response, or an exception of
  the HTTP library) is logged at level ERROR and nothing else: it is not counted. The
  records after it are processed as usual, every record of the zone gets its PATCH
  call, the zone failure count is untouched by \<open>create_records\<close>, and the loop of
  \<open>create\<close> goes on to the following zones with the count it had.
\<close>

theorem record_failure_logged_not_counted:
  "(\<not> ok_response (srv (calls w) (patch_request (u @ ''/'' @ z_name z) hdrs (record_payload r))) \<longrightarrow>
      (\<exists>e. logs (create_record srv u hdrs z r w) =
         logs w @ [Log INFO ''Sending request to create record %s'' [Str (r_name r)],
                   Log ERROR ''Error: {error}'' [Exc e]]))
   \<and> create_records_loop srv u hdrs z (rs1 @ r # rs2) w =
       create_records_loop srv u hdrs z rs2
         (create_record srv u hdrs z r (create_records_loop srv u hdrs z rs1 w))
   \<and> calls (create_records_loop srv u hdrs z (rs1 @ r # rs2) w) =
       calls w @ map (\<lambda>r. patch_request (u @ ''/'' @ z_name z) hdrs (record_payload r))
                     (rs1 @ r # rs2)
   \<and> zone_failures_logged (create_records srv u hdrs z w) = zone_failures_logged w
   \<and> (fst (create_zone srv (zones_url a) hdrs z w) = Inr True \<longrightarrow>
        create_loop srv a hdrs (z # zs) k w =
          create_loop srv a hdrs zs k
            (create_records srv (zones_url a) hdrs z
               (snd (create_zone srv (zones_url a) hdrs z w))))"
  using create_record_failure_logs [of srv w u z hdrs r] create_loop_True [of srv a hdrs z w zs k]
  by (simp del: create_loop.simps
      add: create_records_loop_append create_records_loop_calls create_records_frame)

lemma create_loop_example_records_fail:
  "\<not> ok_response (srv_patch_500 (calls world0)
        (patch_request (zones_url args0 @ ''/'' @ z_name zone_b) hdrs0 (record_payload rec_www)))
   \<and> fst (create_zone srv_patch_500 (zones_url args0) hdrs0 zone_b world0) = Inr True
   \<and> map req_method (calls (snd (create_loop srv_patch_500 args0 hdrs0 [zone_b, zone_a] 0 world0))) =
       [GET, PATCH, PATCH, GET, PATCH]
   \<and> fst (create_loop srv_patch_500 args0 hdrs0 [zone_b, zone_a] 0 world0) = Inr 0"
  by code_simp

theorem record_failure_logged_not_counted_witness:
  "\<not> ok_response (srv_patch_500 (calls world0)
        (patch_request (zones_url args0 @ ''/'' @ z_name zone_b) hdrs0 (record_payload rec_www)))
   \<and> fst (create_zone srv_patch_500 (zones_url args0) hdrs0 zone_b world0) = Inr True
   \<and> map req_method (calls (snd (create_loop srv_patch_500 args0 hdrs0 [zone_b, zone_a] 0 world0))) =
       [GET, PATCH, PATCH, GET, PATCH]
   \<and> fst (create_loop srv_patch_500 args0 hdrs0 [zone_b, zone_a] 0 world0) = Inr 0
   \<and> create_loop srv_patch_500 args0 hdrs0 [zone_b, zone_a] 0 world0 =
       create_loop srv_patch_500 args0 hdrs0 [zone_a] 0
         (create_records srv_patch_500 (zones_url args0) hdrs0 zone_b
            (snd (create_zone srv_patch_500 (zones_url args0) hdrs0 zone_b world0)))"
  using record_failure_logged_not_counted
          [of srv_patch_500 world0 "zones_url args0" zone_b hdrs0 rec_www "[]" "[rec_mx]"
              args0 "[zone_a]" 0]
    create_loop_example_records_fail
  by simp

section \<open>The delete path\<close>

lemma delete_record_stdout [simp]:
  "stdout (delete_record srv u hdrs z r w) = stdout w"
  unfolding delete_record_def Let_def
  by (auto split: prod.splits bool.splits sum.splits
      dest!: zone_exists_frame requests_frame)

lemma delete_records_loop_stdout [simp]:
  "stdout (delete_records_loop srv u hdrs z rs w) = stdout w"
  by (induction rs arbitrary: w) simp_all

lemma delete_records_stdout [simp]:
  "stdout (delete_records srv u hdrs z w) = stdout w"
  by (simp add: delete_records_def)

lemma delete_zone_stdout [simp]:
  "stdout (delete_zone srv u hdrs z w) = stdout w"
  unfolding delete_zone_def Let_def
  by (auto split: prod.splits bool.splits sum.splits
      dest!: zone_exists_frame requests_frame)

lemma delete_loop_stdout [simp]:
  "stdout (delete_loop srv a hdrs zs w) = stdout w"
  by (induction zs arbitrary: w) simp_all

lemma failed_writes_append:
  "failed_writes srv hist (xs @ ys) =
     failed_writes srv hist xs + failed_writes srv (hist @ xs) ys"
  by (induction xs arbitrary: hist) simp_all

lemma errors_logged_logger [simp]:
  "errors_logged (logger lv fmt as w) = errors_logged w + (if lv = ERROR then 1 else 0)"
  by (simp add: errors_logged_def is_error_entry_def)

lemma errors_logged_print_line [simp]:
  "errors_logged (print_line m w) = errors_logged w"
  by (simp add: errors_logged_def)

lemma delete_record_calls:
  "calls (delete_record srv u hdrs z r w) =
     calls w @ (if ok_response (srv (calls w) (get_request u hdrs))
                then [get_request u hdrs, patch_request u hdrs (delete_record_payload r)]
                else [get_request u hdrs])"
  by (simp add: delete_record_def zone_exists_def requests_def raise_for_status_def
      ok_response_def Let_def split: response.splits)

lemma delete_record_logs:
  "logs (delete_record srv u hdrs z r w) =
     logs w @
     [Log INFO ''Request to delete record  %s'' [Str (r_name r)],
      Log DEBUG ''Sending GET request to %s'' [Str u]] @
     (if ok_response (srv (calls w) (get_request u hdrs)) then
        (case srv (calls w @ [get_request u hdrs]) (patch_request u hdrs (delete_record_payload r)) of
           Failed f \<Rightarrow> [Log ERROR ''Error: {error}'' [Exc (RequestException f)]]
         | Status c \<Rightarrow>
             if 400 \<le> c \<and> c < 600 then [Log ERROR ''Error: {error}'' [Exc (HTTPError c)]]
             else [Log INFO ''Successful deleted DNS record %s'' [Str (r_name r)]])
      else [Log INFO ''Zone %s for the record %s requested to be deleted does not exists''
              [Str (z_name z), Str (r_name r)]])"
  by (simp add: delete_record_def zone_exists_def requests_def raise_for_status_def
      ok_response_def Let_def split: response.splits)

lemma delete_zone_calls:
  "calls (delete_zone srv u hdrs z w) =
     calls w @ (if ok_response (srv (calls w) (get_request u hdrs))
                then [get_request u hdrs, delete_request u hdrs z]
                else [get_request u hdrs])"
  by (simp add: delete_zone_def zone_exists_def requests_def raise_for_status_def
      ok_response_def Let_def split: response.splits)

lemma delete_zone_logs:
  "logs (delete_zone srv u hdrs z w) =
     logs w @
     [Log INFO ''Request to delete Zone %s'' [Str (z_name z)],
      Log DEBUG ''Sending GET request to %s'' [Str u]] @
     (if ok_response (srv (calls w) (get_request u hdrs)) then
        (case srv (calls w @ [get_request u hdrs]) (delete_request u hdrs z) of
           Failed f \<Rightarrow> [Log ERROR ''Error: {error}'' [Exc (RequestException f)]]
         | Status c \<Rightarrow>
             if 400 \<le> c \<and> c < 600 then [Log ERROR ''Error: {error}'' [Exc (HTTPError c)]]
             else [Log INFO ''Successful deleted zone %s'' [Str (z_name z)]])
      else [Log INFO ''Zone %s requested to be deleted does not exists'' [Str (z_name z)]])"
  by (simp add: delete_zone_def zone_exists_def requests_def raise_for_status_def
      ok_response_def Let_def split: response.splits)

lemma delete_record_effect:
  "\<exists>new. calls (delete_record srv u hdrs z r w) = calls w @ new
      \<and> errors_logged (delete_record srv u hdrs z r w) =
          errors_logged w + failed_writes srv (calls w) new"
  by (auto simp: delete_record_calls delete_record_logs errors_logged_def is_error_entry_def
      ok_response_def get_request_def patch_request_def split: response.splits)

lemma delete_zone_effect:
  "\<exists>new. calls (delete_zone srv u hdrs z w) = calls w @ new
      \<and> errors_logged (delete_zone srv u hdrs z w) =
          errors_logged w + failed_writes srv (calls w) new"
  by (auto simp: delete_zone_calls delete_zone_logs errors_logged_def is_error_entry_def
      ok_response_def get_request_def delete_request_def split: response.splits)

lemma effect_trans:
  assumes "calls w1 = calls w @ n1"
    and "errors_logged w1 = errors_logged w + failed_writes srv (calls w) n1"
    and "calls w2 = calls w1 @ n2"
    and "errors_logged w2 = errors_logged w1 + failed_writes srv (calls w1) n2"
  shows "\<exists>new. calls w2 = calls w @ new
      \<and> errors_logged w2 = errors_logged w + failed_writes srv (calls w) new"
proof (intro exI conjI)
  show "calls w2 = calls w @ (n1 @ n2)" using assms by simp
  show "errors_logged w2 = errors_logged w + failed_writes srv (calls w) (n1 @ n2)"
    using assms by (simp add: failed_writes_append)
qed

lemma delete_records_loop_effect:
  "\<exists>new. calls (delete_records_loop srv u hdrs z rs w) = calls w @ new
      \<and> errors_logged (delete_records_loop srv u hdrs z rs w) =
          errors_logged w + failed_writes srv (calls w) new"
proof (induction rs arbitrary: w)
  case Nil
  then show ?case by simp
next
  case (Cons r rs)
  obtain n1 where 1: "calls (delete_record srv u hdrs z r w) = calls w @ n1"
    "errors_logged (delete_record srv u hdrs z r w) =
       errors_logged w + failed_writes srv (calls w) n1"
    using delete_record_effect by blast
  obtain n2 where 2:
    "calls (delete_records_loop srv u hdrs z rs (delete_record srv u hdrs z r w)) =
       calls (delete_record srv u hdrs z r w) @ n2"
    "errors_logged (delete_records_loop srv u hdrs z rs (delete_record srv u hdrs z r w)) =
       errors_logged (delete_record srv u hdrs z r w)
       + failed_writes srv (calls (delete_record srv u hdrs z r w)) n2"
    using Cons.IH by blast
  from effect_trans [OF 1 2] show ?case by simp
qed

lemma delete_loop_effect:
  "\<exists>new. calls (delete_loop srv a hdrs zs w) = calls w @ new
      \<and> errors_logged (delete_loop srv a hdrs zs w) =
          errors_logged w + failed_writes srv (calls w) new"
proof (induction zs arbitrary: w)
  case Nil
  then show ?case by simp
next
  case (Cons z zs)
  let ?w1 = "delete_records srv (zone_url a z) hdrs z w"
  let ?w2 = "delete_zone srv (zone_url a z) hdrs z ?w1"
  obtain n1 where 1: "calls ?w1 = calls w @ n1"
    "errors_logged ?w1 = errors_logged w + failed_writes srv (calls w) n1"
    using delete_records_loop_effect unfolding delete_records_def by blast
  obtain n2 where 2: "calls ?w2 = calls ?w1 @ n2"
    "errors_logged ?w2 = errors_logged ?w1 + failed_writes srv (calls ?w1) n2"
    using delete_zone_effect by blast
  obtain n12 where 12: "calls ?w2 = calls w @ n12"
    "errors_logged ?w2 = errors_logged w + failed_writes srv (calls w) n12"
    using effect_trans [OF 1 2] by blast
  obtain n3 where 3: "calls (delete_loop srv a hdrs zs ?w2) = calls ?w2 @ n3"
    "errors_logged (delete_loop srv a hdrs zs ?w2) =
       errors_logged ?w2 + failed_writes srv (calls ?w2) n3"
    using Cons.IH by blast
  from effect_trans [OF 12 3] show ?case by simp
qed

lemma delete_records_loop_append:
  "delete_records_loop srv u hdrs z (rs1 @ rs2) w =
     delete_records_loop srv u hdrs z rs2 (delete_records_loop srv u hdrs z rs1 w)"
  by (induction rs1 arbitrary: w) simp_all

lemma delete_loop_append:
  "delete_loop srv a hdrs (zs1 @ zs2) w =
     delete_loop srv a hdrs zs2 (delete_loop srv a hdrs zs1 w)"
  by (induction zs1 arbitrary: w) simp_all

text \<open>
  C9. \<open>delete\<close> always returns normally and \<open>main\<close> in delete mode prints the
  success line for every validated document, whatever the server answers. The failures
  of a run are only logged: the number of logger calls at level ERROR that the run adds
  is the number of its record and zone deletion requests that the server answered with
  a failure, and nothing is printed or raised for them. A record deletion that fails
  after a successful probe logs the error as its last entry, and so does a zone
  deletion; the records and zones that follow are processed all the same.
\<close>

theorem delete_always_reports_success:
  "fst (delete srv a hdrs data w) = Inr ()
   \<and> stdout (run_delete srv a hdrs data w) = stdout w @ [''Delete operation successful'']
   \<and> (\<exists>new. calls (snd (delete srv a hdrs data w)) = calls w @ new
         \<and> errors_logged (snd (delete srv a hdrs data w)) =
             errors_logged w + failed_writes srv (calls w) new)
   \<and> (validate_data data = Inr () \<and> operation a = ''delete'' \<longrightarrow>
        fst (main srv a (Some data) w) = Inr ()
        \<and> stdout (snd (main srv a (Some data) w)) =
            stdout w @ [''Delete operation successful'']
        \<and> (\<exists>new. calls (snd (main srv a (Some data) w)) = calls w @ new
              \<and> errors_logged (snd (main srv a (Some data) w)) =
                  errors_logged w + failed_writes srv (calls w) new))
   \<and> (ok_response (srv (calls w) (get_request u hdrs))
        \<and> \<not> ok_response (srv (calls w @ [get_request u hdrs])
                            (patch_request u hdrs (delete_record_payload r))) \<longrightarrow>
        (\<exists>e. logs (delete_record srv u hdrs z r w) =
           logs w @ [Log INFO ''Request to delete record  %s'' [Str (r_name r)],
                     Log DEBUG ''Sending GET request to %s'' [Str u],
                     Log ERROR ''Error: {error}'' [Exc e]])
        \<and> calls (delete_record srv u hdrs z r w) =
            calls w @ [get_request u hdrs, patch_request u hdrs (delete_record_payload r)]
        \<and> stdout (delete_record srv u hdrs z r w) = stdout w)
   \<and> (ok_response (srv (calls w) (get_request u hdrs))
        \<and> \<not> ok_response (srv (calls w @ [get_request u hdrs]) (delete_request u hdrs z)) \<longrightarrow>
        (\<exists>e. logs (delete_zone srv u hdrs z w) =
           logs w @ [Log INFO ''Request to delete Zone %s'' [Str (z_name z)],
                     Log DEBUG ''Sending GET request to %s'' [Str u],
                     Log ERROR ''Error: {error}'' [Exc e]])
        \<and> calls (delete_zone srv u hdrs z w) =
            calls w @ [get_request u hdrs, delete_request u hdrs z]
        \<and> stdout (delete_zone srv u hdrs z w) = stdout w)
   \<and> delete_records_loop srv u hdrs z (rs1 @ r # rs2) w =
       delete_records_loop srv u hdrs z rs2
         (delete_record srv u hdrs z r (delete_records_loop srv u hdrs z rs1 w))
   \<and> delete_loop srv a hdrs (zs1 @ z # zs2) w =
       delete_loop srv a hdrs zs2
         (delete_zone srv (zone_url a z) hdrs z
            (delete_records srv (zone_url a z) hdrs z (delete_loop srv a hdrs zs1 w)))"
proof -
  have d: "\<exists>new. calls (snd (delete srv a hdrs data w)) = calls w @ new
         \<and> errors_logged (snd (delete srv a hdrs data w)) =
             errors_logged w + failed_writes srv (calls w) new"
    using delete_loop_effect [of srv a hdrs "read_zones data" w] by (simp add: delete_def)
  have m: "validate_data data = Inr () \<and> operation a = ''delete'' \<longrightarrow>
        fst (main srv a (Some data) w) = Inr ()
        \<and> stdout (snd (main srv a (Some data) w)) =
            stdout w @ [''Delete operation successful'']
        \<and> (\<exists>new. calls (snd (main srv a (Some data) w)) = calls w @ new
              \<and> errors_logged (snd (main srv a (Some data) w)) =
                  errors_logged w + failed_writes srv (calls w) new)"
    using delete_loop_effect [of srv a "[(''X-API-Key'', key a)]" "read_zones data" w]
    by (simp add: main_def Let_def run_delete_def delete_def)
  have r: "ok_response (srv (calls w) (get_request u hdrs))
        \<and> \<not> ok_response (srv (calls w @ [get_request u hdrs])
                            (patch_request u hdrs (delete_record_payload r))) \<longrightarrow>
        (\<exists>e. logs (delete_record srv u hdrs z r w) =
           logs w @ [Log INFO ''Request to delete record  %s'' [Str (r_name r)],
                     Log DEBUG ''Sending GET request to %s'' [Str u],
                     Log ERROR ''Error: {error}'' [Exc e]])
        \<and> calls (delete_record srv u hdrs z r w) =
            calls w @ [get_request u hdrs, patch_request u hdrs (delete_record_payload r)]
        \<and> stdout (delete_record srv u hdrs z r w) = stdout w"
    by (auto simp: delete_record_calls delete_record_logs ok_response_def
        split: response.splits)
  have z: "ok_response (srv (calls w) (get_request u hdrs))
        \<and> \<not> ok_response (srv (calls w @ [get_request u hdrs]) (delete_request u hdrs z)) \<longrightarrow>
        (\<exists>e. logs (delete_zone srv u hdrs z w) =
           logs w @ [Log INFO ''Request to delete Zone %s'' [Str (z_name z)],
                     Log DEBUG ''Sending GET request to %s'' [Str u],
                     Log ERROR ''Error: {error}'' [Exc e]])
        \<and> calls (delete_zone srv u hdrs z w) =
            calls w @ [get_request u hdrs, delete_request u hdrs z]
        \<and> stdout (delete_zone srv u hdrs z w) = stdout w"
    by (auto simp: delete_zone_calls delete_zone_logs ok_response_def
        split: response.splits)
  have l: "delete_records_loop srv u hdrs z (rs1 @ r # rs2) w =
       delete_records_loop srv u hdrs z rs2
         (delete_record srv u hdrs z r (delete_records_loop srv u hdrs z rs1 w))"
    by (simp add: delete_records_loop_append)
  have zl: "delete_loop srv a hdrs (zs1 @ z # zs2) w =
       delete_loop srv a hdrs zs2
         (delete_zone srv (zone_url a z) hdrs z
            (delete_records srv (zone_url a z) hdrs z (delete_loop srv a hdrs zs1 w)))"
    by (simp add: delete_loop_append)
  have s: "fst (delete srv a hdrs data w) = Inr ()
     \<and> stdout (run_delete srv a hdrs data w) = stdout w @ [''Delete operation successful'']"
    by (simp add: delete_def run_delete_def)
  from s d m r z l zl show ?thesis by blast
qed

lemma delete_example_all_fail:
  "validate_data (Zones [zone_a, zone_b]) = Inr ()
   \<and> operation args_delete = ''delete''
   \<and> ok_response (srv_deletes_fail (calls world0) (get_request (zone_url args_delete zone_a) hdrs0))
   \<and> \<not> ok_response (srv_deletes_fail
          (calls world0 @ [get_request (zone_url args_delete zone_a) hdrs0])
          (patch_request (zone_url args_delete zone_a) hdrs0 (delete_record_payload rec_a)))
   \<and> \<not> ok_response (srv_deletes_fail
          (calls world0 @ [get_request (zone_url args_delete zone_a) hdrs0])
          (delete_request (zone_url args_delete zone_a) hdrs0 zone_a))
   \<and> logs (delete_record srv_deletes_fail (zone_url args_delete zone_a) hdrs0 zone_a rec_a world0) =
       [Log INFO ''Request to delete record  %s'' [Str ''a.example.''],
        Log DEBUG ''Sending GET request to %s'' [Str (zone_url args_delete zone_a)],
        Log ERROR ''Error: {error}'' [Exc (HTTPError 500)]]
   \<and> logs (delete_zone srv_deletes_fail (zone_url args_delete zone_a) hdrs0 zone_a world0) =
       [Log INFO ''Request to delete Zone %s'' [Str ''a.example.''],
        Log DEBUG ''Sending GET request to %s'' [Str (zone_url args_delete zone_a)],
        Log ERROR ''Error: {error}'' [Exc (RequestException Timeout)]]
   \<and> map req_method
        (calls (snd (main srv_deletes_fail args_delete (Some (Zones [zone_a, zone_b])) world0))) =
       [GET, PATCH, GET, DELETE, GET, PATCH, GET, PATCH, GET, DELETE]
   \<and> failed_writes srv_deletes_fail []
        (calls (snd (main srv_deletes_fail args_delete (Some (Zones [zone_a, zone_b])) world0))) = 5
   \<and> errors_logged (snd (main srv_deletes_fail args_delete (Some (Zones [zone_a, zone_b])) world0)) = 5
   \<and> count_list
        (logs (snd (main srv_deletes_fail args_delete (Some (Zones [zone_a, zone_b])) world0)))
        (Log ERROR ''Error: {error}'' [Exc (HTTPError 500)]) = 3
   \<and> count_list
        (logs (snd (main srv_deletes_fail args_delete (Some (Zones [zone_a, zone_b])) world0)))
        (Log ERROR ''Error: {error}'' [Exc (RequestException Timeout)]) = 2"
  by code_simp

theorem delete_always_reports_success_witness:
  "validate_data (Zones [zone_a, zone_b]) = Inr ()
   \<and> operation args_delete = ''delete''
   \<and> ok_response (srv_deletes_fail (calls world0) (get_request (zone_url args_delete zone_a) hdrs0))
   \<and> \<not> ok_response (srv_deletes_fail
          (calls world0 @ [get_request (zone_url args_delete zone_a) hdrs0])
          (patch_request (zone_url args_delete zone_a) hdrs0 (delete_record_payload rec_a)))
   \<and> \<not> ok_response (srv_deletes_fail
          (calls world0 @ [get_request (zone_url args_delete zone_a) hdrs0])
          (delete_request (zone_url args_delete zone_a) hdrs0 zone_a))
   \<and> logs (delete_record srv_deletes_fail (zone_url args_delete zone_a) hdrs0 zone_a rec_a world0) =
       [Log INFO ''Request to delete record  %s'' [Str ''a.example.''],
        Log DEBUG ''Sending GET request to %s'' [Str (zone_url args_delete zone_a)],
        Log ERROR ''Error: {error}'' [Exc (HTTPError 500)]]
   \<and> logs (delete_zone srv_deletes_fail (zone_url args_delete zone_a) hdrs0 zone_a world0) =
       [Log INFO ''Request to delete Zone %s'' [Str ''a.example.''],
        Log DEBUG ''Sending GET request to %s'' [Str (zone_url args_delete zone_a)],
        Log ERROR ''Error: {error}'' [Exc (RequestException Timeout)]]
   \<and> failed_writes srv_deletes_fail []
        (calls (snd (main srv_deletes_fail args_delete (Some (Zones [zone_a, zone_b])) world0))) = 5
   \<and> errors_logged (snd (main srv_deletes_fail args_delete (Some (Zones [zone_a, zone_b])) world0)) = 5
   \<and> fst (main srv_deletes_fail args_delete (Some (Zones [zone_a, zone_b])) world0) = Inr ()
   \<and> stdout (snd (main srv_deletes_fail args_delete (Some (Zones [zone_a, zone_b])) world0)) =
       [''Delete operation successful'']"
  using delete_always_reports_success
          [of srv_deletes_fail args_delete hdrs0 "Zones [zone_a, zone_b]" world0
              "zone_url args_delete zone_a" rec_a zone_a "[]" "[]" "[]" "[zone_b]"]
    delete_example_all_fail
  by (simp add: world0_def)

end
